theory Spec2Isabelle
  imports
    Complex_Main
    "HOL-Library.Char_ord"
    "HOL-Library.List_Lexorder"
    "HOL-Library.Multiset"
    "HOL-Library.Sublist"
begin

section \<open>RateWise: retry engine, circuit breaker, cache, redaction, pipeline\<close>

text \<open>
  A shallow embedding of the Python package \<^verbatim>\<open>ratewise\<close>. Python floats are
  modelled as real numbers (no rounding, no overflow, no NaN), Python ints as
  \<^typ>\<open>int\<close>, strings as \<^typ>\<open>string\<close>. Every read of the wall clock
  (\<^verbatim>\<open>time.time()\<close>) and every draw of the random generator
  (\<^verbatim>\<open>random.random()\<close>) is an explicit argument.
\<close>

datatype py_error = ZeroDivisionError | ValueError | KeyError

text \<open>
  \<^verbatim>\<open>str.upper()\<close>, \<^verbatim>\<open>str.lower()\<close> (on ASCII letters) and \<^verbatim>\<open>sep.join(parts)\<close>.
\<close>

definition upper_char :: "char \<Rightarrow> char" where
  "upper_char c =
     (case map_of (zip ''abcdefghijklmnopqrstuvwxyz'' ''ABCDEFGHIJKLMNOPQRSTUVWXYZ'') c of
        Some u \<Rightarrow> u | None \<Rightarrow> c)"

definition lower_char :: "char \<Rightarrow> char" where
  "lower_char c =
     (case map_of (zip ''ABCDEFGHIJKLMNOPQRSTUVWXYZ'' ''abcdefghijklmnopqrstuvwxyz'') c of
        Some l \<Rightarrow> l | None \<Rightarrow> c)"

definition str_upper :: "string \<Rightarrow> string" where
  "str_upper s = map upper_char s"

definition str_lower :: "string \<Rightarrow> string" where
  "str_lower s = map lower_char s"

fun join :: "string \<Rightarrow> string list \<Rightarrow> string" where
  "join sep [] = []"
| "join sep [x] = x"
| "join sep (x # y # ys) = x @ sep @ join sep (y # ys)"

subsection \<open>retry.py: ExponentialBackoff\<close>

record ExponentialBackoff =
  initial_delay :: real
  max_delay :: real
  multiplier :: real
  jitter :: bool
  jitter_ratio :: real

text \<open>
  \<^verbatim>\<open>x ** n\<close> for a float \<open>x\<close> and an int \<open>n\<close>: a negative exponent is the
  reciprocal of the positive power, and \<^verbatim>\<open>0.0 ** n\<close> raises ZeroDivisionError
  for \<open>n < 0\<close>.
\<close>

definition float_pow :: "real \<Rightarrow> int \<Rightarrow> py_error + real" where
  "float_pow x n =
     (if 0 \<le> n then Inr (x ^ nat n)
      else if x = 0 then Inl ZeroDivisionError
      else Inr (1 / x ^ nat (- n)))"

text \<open>
  \<^verbatim>\<open>random.uniform(a, b)\<close> is \<^verbatim>\<open>a + (b - a) * random()\<close>; \<open>u\<close> is the value of
  \<^verbatim>\<open>random()\<close>, a number of the interval \<open>[0, 1)\<close>.
\<close>

definition uniform :: "real \<Rightarrow> real \<Rightarrow> real \<Rightarrow> real" where
  "uniform a b u = a + (b - a) * u"

definition calculate_delay :: "ExponentialBackoff \<Rightarrow> real \<Rightarrow> int \<Rightarrow> py_error + real" where
  "calculate_delay b u attempt =
     (case float_pow (multiplier b) (attempt - 1) of
        Inl e \<Rightarrow> Inl e
      | Inr p \<Rightarrow>
          (let delay = min (initial_delay b * p) (max_delay b)
           in if jitter b then
                (let jitter_range = delay * jitter_ratio b;
                     delay' = delay + uniform (- jitter_range) jitter_range u
                 in Inr (max 0 delay'))
              else Inr delay))"

text \<open>The dataclass defaults of \<^verbatim>\<open>ExponentialBackoff()\<close>.\<close>

definition default_backoff :: ExponentialBackoff where
  "default_backoff =
     \<lparr>initial_delay = 1, max_delay = 60, multiplier = 2, jitter = True, jitter_ratio = 1 / 10\<rparr>"

subsection \<open>circuit_breaker.py: CircuitBreaker\<close>

datatype CircuitState = CLOSED | OPEN | HALF_OPEN

record CircuitBreakerMetrics =
  total_calls :: nat
  successful_calls :: nat
  failed_calls :: nat
  rejected_calls :: nat
  state_transitions :: nat

text \<open>
  The breaker object. \<open>'e\<close> is the type of exception values;
  \<open>expected_exceptions\<close> and \<open>excluded_exceptions\<close> are the two
  \<^verbatim>\<open>isinstance(exception, ...)\<close> tests of \<^verbatim>\<open>record_failure\<close>. The state-change
  callbacks (\<^verbatim>\<open>on_state_change\<close>, the listeners) are taken to be absent: the
  constructor installs none by default, and a callback is arbitrary user code.
\<close>

record 'e CircuitBreaker =
  failure_threshold :: int
  success_threshold :: int
  recovery_timeout :: real
  expected_exceptions :: "'e \<Rightarrow> bool"
  excluded_exceptions :: "'e \<Rightarrow> bool"
  state :: CircuitState
  failure_count :: int
  success_count :: int
  last_failure_time :: "real option"
  metrics :: CircuitBreakerMetrics

text \<open>\<^verbatim>\<open>CircuitBreaker.__init__\<close>.\<close>

definition new_breaker ::
  "int \<Rightarrow> int \<Rightarrow> real \<Rightarrow> ('e \<Rightarrow> bool) \<Rightarrow> ('e \<Rightarrow> bool) \<Rightarrow> 'e CircuitBreaker" where
  "new_breaker ft st rt expected excluded =
     \<lparr>failure_threshold = ft, success_threshold = st, recovery_timeout = rt,
      expected_exceptions = expected, excluded_exceptions = excluded,
      state = CLOSED, failure_count = 0, success_count = 0, last_failure_time = None,
      metrics = \<lparr>total_calls = 0, successful_calls = 0, failed_calls = 0,
                 rejected_calls = 0, state_transitions = 0\<rparr>\<rparr>"

definition should_attempt_recovery :: "'e CircuitBreaker \<Rightarrow> real \<Rightarrow> bool" where
  "should_attempt_recovery cb now =
     (case last_failure_time cb of
        None \<Rightarrow> True
      | Some t \<Rightarrow> now - t \<ge> recovery_timeout cb)"

definition transition_to :: "'e CircuitBreaker \<Rightarrow> CircuitState \<Rightarrow> 'e CircuitBreaker" where
  "transition_to cb new_state =
     (if state cb = new_state then cb
      else
        (let cb1 = cb\<lparr>state := new_state,
                       metrics := (metrics cb)\<lparr>state_transitions :=
                                     state_transitions (metrics cb) + 1\<rparr>\<rparr>;
             cb2 = (if new_state = CLOSED
                    then cb1\<lparr>failure_count := 0, success_count := 0\<rparr> else cb1);
             cb3 = (if new_state = HALF_OPEN then cb2\<lparr>success_count := 0\<rparr> else cb2)
         in cb3))"

definition is_open :: "'e CircuitBreaker \<Rightarrow> real \<Rightarrow> bool \<times> 'e CircuitBreaker" where
  "is_open cb now =
     (if state cb = OPEN then
        (if should_attempt_recovery cb now then (False, transition_to cb HALF_OPEN)
         else (True, cb))
      else (False, cb))"

definition record_success :: "'e CircuitBreaker \<Rightarrow> 'e CircuitBreaker" where
  "record_success cb =
     (let cb1 = cb\<lparr>metrics := (metrics cb)\<lparr>total_calls := total_calls (metrics cb) + 1,
                      successful_calls := successful_calls (metrics cb) + 1\<rparr>\<rparr>
      in if state cb1 = HALF_OPEN then
           (let cb2 = cb1\<lparr>success_count := success_count cb1 + 1\<rparr>
            in if success_count cb2 \<ge> success_threshold cb2
               then transition_to cb2 CLOSED else cb2)
         else if state cb1 = CLOSED then cb1\<lparr>failure_count := 0\<rparr>
         else cb1)"

definition record_failure ::
  "'e CircuitBreaker \<Rightarrow> real \<Rightarrow> 'e option \<Rightarrow> 'e CircuitBreaker" where
  "record_failure cb now exception =
     (if (case exception of None \<Rightarrow> False | Some e \<Rightarrow> excluded_exceptions cb e) then cb
      else if (case exception of None \<Rightarrow> False | Some e \<Rightarrow> \<not> expected_exceptions cb e) then cb
      else
        (let cb1 = cb\<lparr>metrics := (metrics cb)\<lparr>total_calls := total_calls (metrics cb) + 1,
                         failed_calls := failed_calls (metrics cb) + 1\<rparr>,
                       failure_count := failure_count cb + 1,
                       last_failure_time := Some now\<rparr>
         in if state cb1 = HALF_OPEN then transition_to cb1 OPEN
            else if state cb1 = CLOSED then
              (if failure_count cb1 \<ge> failure_threshold cb1
               then transition_to cb1 OPEN else cb1)
            else cb1))"

definition allow_request :: "'e CircuitBreaker \<Rightarrow> real \<Rightarrow> bool \<times> 'e CircuitBreaker" where
  "allow_request cb now =
     (case is_open cb now of
        (True, cb1) \<Rightarrow>
          (False, cb1\<lparr>metrics := (metrics cb1)\<lparr>rejected_calls :=
                                     rejected_calls (metrics cb1) + 1\<rparr>\<rparr>)
      | (False, cb1) \<Rightarrow> (True, cb1))"

definition reset :: "'e CircuitBreaker \<Rightarrow> 'e CircuitBreaker" where
  "reset cb =
     (transition_to cb CLOSED)\<lparr>failure_count := 0, success_count := 0,
                                last_failure_time := None\<rparr>"

text \<open>
  The public operations a caller can apply to a breaker, each with the clock reading it
  makes, and the run of a sequence of them. (\<^verbatim>\<open>call\<close> is \<^verbatim>\<open>allow_request\<close>
  followed by \<^verbatim>\<open>record_success\<close> or \<^verbatim>\<open>record_failure\<close>.)
\<close>

datatype 'e breaker_op =
    AllowRequest real
  | IsOpen real
  | RecordSuccess
  | RecordFailure real "'e option"
  | Reset

fun breaker_step :: "'e CircuitBreaker \<Rightarrow> 'e breaker_op \<Rightarrow> 'e CircuitBreaker" where
  "breaker_step cb (AllowRequest now) = snd (allow_request cb now)"
| "breaker_step cb (IsOpen now) = snd (is_open cb now)"
| "breaker_step cb RecordSuccess = record_success cb"
| "breaker_step cb (RecordFailure now exception) = record_failure cb now exception"
| "breaker_step cb Reset = reset cb"

definition breaker_run :: "'e CircuitBreaker \<Rightarrow> 'e breaker_op list \<Rightarrow> 'e CircuitBreaker" where
  "breaker_run cb ops = foldl breaker_step cb ops"

text \<open>Whether \<^verbatim>\<open>record_failure\<close> counts the failure (the exception filter passes).\<close>

definition counted_failure :: "'e CircuitBreaker \<Rightarrow> 'e option \<Rightarrow> bool" where
  "counted_failure cb exception =
     (case exception of
        None \<Rightarrow> True
      | Some e \<Rightarrow> \<not> excluded_exceptions cb e \<and> expected_exceptions cb e)"

subsection \<open>cache.py: CacheEntry and InMemoryCache\<close>

record 'v CacheEntry =
  entry_value :: 'v
  created_at :: real
  ttl :: real
  etag :: "string option"
  last_accessed :: "real option"

definition is_expired :: "'v CacheEntry \<Rightarrow> real \<Rightarrow> bool" where
  "is_expired e now = (if ttl e \<le> 0 then False else now - created_at e \<ge> ttl e)"

record CacheStats =
  hits :: nat
  misses :: nat
  sets :: nat
  deletes :: nat
  evictions :: nat

text \<open>
  \<open>entries\<close> is the \<^verbatim>\<open>OrderedDict\<close> \<^verbatim>\<open>_cache\<close>: an association list in
  dictionary order, the most recently used entry last. \<open>cache_stats\<close> is \<^verbatim>\<open>_stats\<close>.
  Each operation reads the clock once (\<open>now\<close>).
\<close>

record 'v InMemoryCache =
  default_ttl :: real
  max_size :: int
  namespace :: string
  entries :: "(string \<times> 'v CacheEntry) list"
  cache_stats :: CacheStats


definition make_key :: "'v InMemoryCache \<Rightarrow> string \<Rightarrow> string" where
  "make_key c key = (if namespace c \<noteq> [] then namespace c @ '':'' @ key else key)"

text \<open>The dictionary primitives: \<^verbatim>\<open>del d[k]\<close>, \<^verbatim>\<open>d[k] = v\<close>, \<^verbatim>\<open>d.move_to_end(k)\<close>.\<close>

definition od_del :: "string \<Rightarrow> (string \<times> 'a) list \<Rightarrow> (string \<times> 'a) list" where
  "od_del k xs = filter (\<lambda>p. fst p \<noteq> k) xs"

definition od_set :: "string \<Rightarrow> 'a \<Rightarrow> (string \<times> 'a) list \<Rightarrow> (string \<times> 'a) list" where
  "od_set k v xs =
     (if k \<in> fst ` set xs then map (\<lambda>p. if fst p = k then (k, v) else p) xs
      else xs @ [(k, v)])"

definition move_to_end :: "string \<Rightarrow> (string \<times> 'a) list \<Rightarrow> (string \<times> 'a) list" where
  "move_to_end k xs =
     (case map_of xs k of None \<Rightarrow> xs | Some v \<Rightarrow> od_del k xs @ [(k, v)])"

definition bump_evictions :: "'v InMemoryCache \<Rightarrow> 'v InMemoryCache" where
  "bump_evictions c =
     c\<lparr>cache_stats := (cache_stats c)\<lparr>evictions := evictions (cache_stats c) + 1\<rparr>\<rparr>"

definition bump_misses :: "'v InMemoryCache \<Rightarrow> 'v InMemoryCache" where
  "bump_misses c =
     c\<lparr>cache_stats := (cache_stats c)\<lparr>misses := misses (cache_stats c) + 1\<rparr>\<rparr>"

definition expired_keys :: "'v InMemoryCache \<Rightarrow> real \<Rightarrow> string list" where
  "expired_keys c now = map fst (filter (\<lambda>p. is_expired (snd p) now) (entries c))"

text \<open>The loop body of \<^verbatim>\<open>_evict_expired\<close>: delete one key, count one eviction.\<close>

definition evict_key :: "string \<Rightarrow> 'v InMemoryCache \<Rightarrow> 'v InMemoryCache" where
  "evict_key key c = bump_evictions (c\<lparr>entries := od_del key (entries c)\<rparr>)"

definition evict_expired :: "'v InMemoryCache \<Rightarrow> real \<Rightarrow> 'v InMemoryCache" where
  "evict_expired c now = fold evict_key (expired_keys c now) c"

text \<open>
  \<^verbatim>\<open>_evict_lru\<close>: \<^verbatim>\<open>popitem(last=False)\<close> removes the first entry and raises
  KeyError on an empty dictionary.
\<close>

function evict_lru :: "'v InMemoryCache \<Rightarrow> py_error + 'v InMemoryCache" where
  "evict_lru c =
     (if int (length (entries c)) \<ge> max_size c then
        (case entries c of
           [] \<Rightarrow> Inl KeyError
         | _ # rest \<Rightarrow> evict_lru (bump_evictions (c\<lparr>entries := rest\<rparr>)))
      else Inr c)"
  by pat_completeness auto
termination
  by (relation "measure (\<lambda>c. length (entries c))") (auto simp: bump_evictions_def)

definition cache_get :: "'v InMemoryCache \<Rightarrow> string \<Rightarrow> real \<Rightarrow> 'v option \<times> 'v InMemoryCache" where
  "cache_get c key now =
     (let full_key = make_key c key;
          c1 = evict_expired c now
      in case map_of (entries c1) full_key of
           None \<Rightarrow> (None, bump_misses c1)
         | Some entry \<Rightarrow>
             if is_expired entry now then
               (None, bump_misses (c1\<lparr>entries := od_del full_key (entries c1)\<rparr>))
             else
               (let moved = move_to_end full_key (entries c1);
                    touched = od_set full_key (entry\<lparr>last_accessed := Some now\<rparr>) moved
                in (Some (entry_value entry),
                    c1\<lparr>entries := touched,
                       cache_stats := (cache_stats c1)\<lparr>hits := hits (cache_stats c1) + 1\<rparr>\<rparr>)))"

definition cache_set ::
  "'v InMemoryCache \<Rightarrow> string \<Rightarrow> 'v \<Rightarrow> real option \<Rightarrow> string option \<Rightarrow> real
     \<Rightarrow> py_error + 'v InMemoryCache" where
  "cache_set c key v ttl_arg etag_arg now =
     (let full_key = make_key c key;
          effective_ttl = (case ttl_arg of Some t \<Rightarrow> t | None \<Rightarrow> default_ttl c)
      in case evict_lru c of
           Inl e \<Rightarrow> Inl e
         | Inr c1 \<Rightarrow>
             (let entry = \<lparr>entry_value = v, created_at = now, ttl = effective_ttl,
                           etag = etag_arg, last_accessed = Some now\<rparr>
              in Inr (c1\<lparr>entries := move_to_end full_key (od_set full_key entry (entries c1)),
                         cache_stats := (cache_stats c1)\<lparr>sets := sets (cache_stats c1) + 1\<rparr>\<rparr>)))"







subsection \<open>cache.py: generate_cache_key\<close>

text \<open>
  Values that \<^verbatim>\<open>json.dumps\<close> serialises. The serialiser itself and SHA-256
  (\<^verbatim>\<open>hashlib.sha256(s.encode()).hexdigest()\<close>) are library functions and are
  arguments of the model: \<open>dumps\<close> and \<open>sha256_hex\<close>.
\<close>

datatype json =
    JNull
  | JBool bool
  | JInt int
  | JStr string
  | JList "json list"
  | JDict "(string \<times> json) list"

text \<open>
  A \<^verbatim>\<open>dict\<close> with string keys is an association list in insertion order, with
  distinct keys. \<^verbatim>\<open>sorted(params.items())\<close> sorts the (key, value) pairs; the keys
  being distinct, the order of the pairs is the order of their keys. A pair is
  serialised as a two-element array.
\<close>

definition json_pairs :: "(string \<times> json) list \<Rightarrow> json" where
  "json_pairs ps = JList (map (\<lambda>p. JList [JStr (fst p), snd p]) ps)"

definition dict_get :: "(string \<times> 'a) list \<Rightarrow> string \<Rightarrow> 'a \<Rightarrow> 'a" where
  "dict_get d k dflt = (case map_of d k of Some v \<Rightarrow> v | None \<Rightarrow> dflt)"

definition generate_cache_key ::
  "(json \<Rightarrow> string) \<Rightarrow> (string \<Rightarrow> string) \<Rightarrow> string \<Rightarrow> string
     \<Rightarrow> (string \<times> json) list option \<Rightarrow> (string \<times> string) list option
     \<Rightarrow> string list option \<Rightarrow> string" where
  "generate_cache_key dumps sha256_hex method url params headers include_headers =
     (let key_parts = [str_upper method, url];
          key_parts1 =
            (case params of
               Some ps \<Rightarrow>
                 if ps \<noteq> [] then key_parts @ [dumps (json_pairs (sort_key fst ps))]
                 else key_parts
             | None \<Rightarrow> key_parts);
          key_parts2 =
            (case (headers, include_headers) of
               (Some hs, Some inc) \<Rightarrow>
                 if hs \<noteq> [] \<and> inc \<noteq> [] then
                   (let header_parts =
                          map (\<lambda>k. (k, dict_get hs k []))
                            (filter (\<lambda>k. k \<in> fst ` set hs) (sort inc))
                    in if header_parts \<noteq> []
                       then key_parts1 @
                            [dumps (json_pairs (map (\<lambda>p. (fst p, JStr (snd p))) header_parts))]
                       else key_parts1)
                 else key_parts1
             | _ \<Rightarrow> key_parts1);
          key_string = join ''|'' key_parts2
      in sha256_hex key_string)"

text \<open>The value of a header in an optional header dictionary.\<close>

definition header_lookup :: "(string \<times> string) list option \<Rightarrow> string \<Rightarrow> string option" where
  "header_lookup headers k = (case headers of None \<Rightarrow> None | Some hs \<Rightarrow> map_of hs k)"

text \<open>
  The part of the key string that comes from the headers: empty, or one serialised
  list of the included headers that are present, in the order of their names.
\<close>

definition header_part ::
  "(json \<Rightarrow> string) \<Rightarrow> (string \<times> string) list option \<Rightarrow> string list option \<Rightarrow> string list" where
  "header_part dumps headers include_headers =
     (let present = filter (\<lambda>k. header_lookup headers k \<noteq> None)
                      (sort (case include_headers of None \<Rightarrow> [] | Some inc \<Rightarrow> inc))
      in if present = [] then []
         else [dumps (json_pairs (map (\<lambda>k. (k, JStr (the (header_lookup headers k)))) present))])"

subsection \<open>logging.py: masking and redaction\<close>

datatype MaskStyle = FULL | PARTIAL | HASH

record LogConfig =
  cfg_redact_headers :: "string list"
  cfg_redact_query_params :: "string list"
  mask_style :: MaskStyle
  partial_mask_chars :: int

text \<open>The dataclass defaults of \<^verbatim>\<open>LogConfig()\<close> (the fields modelled here).\<close>

definition default_log_config :: LogConfig where
  "default_log_config =
     \<lparr>cfg_redact_headers =
        [''authorization'', ''x-api-key'', ''api-key'', ''apikey'', ''x-auth-token'',
         ''cookie'', ''set-cookie'', ''x-csrf-token''],
      cfg_redact_query_params =
        [''password'', ''token'', ''secret'', ''api_key'', ''apikey'', ''access_token''],
      mask_style = PARTIAL,
      partial_mask_chars = 4\<rparr>"

definition REDACTION_PLACEHOLDER :: string where
  "REDACTION_PLACEHOLDER = ''***REDACTED***''"

text \<open>
  Python slices \<^verbatim>\<open>s[:n]\<close> and \<^verbatim>\<open>s[m:]\<close> for ints \<open>n\<close>, \<open>m\<close>: a negative index
  counts from the end, and an index beyond either end is clamped.
\<close>

definition slice_to :: "string \<Rightarrow> int \<Rightarrow> string" where
  "slice_to s n = (if 0 \<le> n then take (nat n) s else take (length s - nat (- n)) s)"

definition slice_from :: "string \<Rightarrow> int \<Rightarrow> string" where
  "slice_from s m = (if 0 \<le> m then drop (nat m) s else drop (length s - nat (- m)) s)"

definition mask_value :: "(string \<Rightarrow> string) \<Rightarrow> LogConfig \<Rightarrow> string \<Rightarrow> string" where
  "mask_value sha256_hex cfg v =
     (case mask_style cfg of
        FULL \<Rightarrow> REDACTION_PLACEHOLDER
      | PARTIAL \<Rightarrow>
          (let chars = partial_mask_chars cfg
           in if int (length v) \<le> chars * 2 then ''****''
              else slice_to v chars @ ''...'' @ slice_from v (- chars))
      | HASH \<Rightarrow> ''[HASH:'' @ take 8 (sha256_hex v) @ '']'')"

text \<open>
  \<^verbatim>\<open>redact_headers\<close>. The headers are a dictionary (distinct keys, in order); the
  result has the same keys in the same order. \<open>redact_value\<close> is the regular-expression
  pass \<^verbatim>\<open>_redact_value\<close> applied to the values of the other headers; it is built on
  the \<^verbatim>\<open>re\<close> library and is an argument of the model.
\<close>

definition redact_headers ::
  "(string \<Rightarrow> string) \<Rightarrow> (string \<Rightarrow> string) \<Rightarrow> LogConfig
     \<Rightarrow> (string \<times> string) list \<Rightarrow> (string \<times> string) list" where
  "redact_headers redact_value sha256_hex cfg headers =
     (let redact_set = set (map str_lower (cfg_redact_headers cfg))
      in map (\<lambda>(key, v).
                if str_lower key \<in> redact_set then (key, mask_value sha256_hex cfg v)
                else (key, redact_value v))
           headers)"

text \<open>
  \<^verbatim>\<open>redact_url\<close>. The functions of \<^verbatim>\<open>urllib.parse\<close> are arguments:
  \<open>url_query\<close> is \<^verbatim>\<open>urlparse(url).query\<close>, \<open>parse_qs\<close> maps a query string to the
  dictionary from names to value lists, \<open>urlencode\<close> renders such a dictionary, and
  \<open>replace_query url q\<close> is \<^verbatim>\<open>urlunparse(urlparse(url)._replace(query=q))\<close>.
  \<open>redact_params\<close> is the loop that builds \<^verbatim>\<open>redacted_params\<close>.
\<close>

record url_lib =
  url_query :: "string \<Rightarrow> string"
  parse_qs :: "string \<Rightarrow> (string \<times> string list) list"
  urlencode :: "(string \<times> string list) list \<Rightarrow> string"
  replace_query :: "string \<Rightarrow> string \<Rightarrow> string"

definition redact_params ::
  "(string \<Rightarrow> string) \<Rightarrow> LogConfig \<Rightarrow> (string \<times> string list) list
     \<Rightarrow> (string \<times> string list) list" where
  "redact_params sha256_hex cfg params =
     (let redact_set = set (map str_lower (cfg_redact_query_params cfg))
      in map (\<lambda>(key, vals).
                if str_lower key \<in> redact_set then (key, map (mask_value sha256_hex cfg) vals)
                else (key, vals))
           params)"

definition redact_url :: "url_lib \<Rightarrow> (string \<Rightarrow> string) \<Rightarrow> LogConfig \<Rightarrow> string \<Rightarrow> string" where
  "redact_url lib sha256_hex cfg url =
     (if url_query lib url = [] then url
      else
        (let params = parse_qs lib (url_query lib url);
             redacted_params = redact_params sha256_hex cfg params;
             new_query = urlencode lib redacted_params
         in replace_query lib url new_query))"

text \<open>
  Whether a header name or a query parameter name is on the redaction list (compared in
  lower case), and the greatest length a mask can have under a configuration.
\<close>

definition sensitive_header :: "LogConfig \<Rightarrow> string \<Rightarrow> bool" where
  "sensitive_header cfg k \<longleftrightarrow> str_lower k \<in> set (map str_lower (cfg_redact_headers cfg))"

definition sensitive_param :: "LogConfig \<Rightarrow> string \<Rightarrow> bool" where
  "sensitive_param cfg k \<longleftrightarrow> str_lower k \<in> set (map str_lower (cfg_redact_query_params cfg))"

definition mask_length_bound :: "LogConfig \<Rightarrow> nat" where
  "mask_length_bound cfg =
     (case mask_style cfg of
        FULL \<Rightarrow> 14
      | PARTIAL \<Rightarrow> 2 * nat (partial_mask_chars cfg) + 3
      | HASH \<Rightarrow> 15)"

subsection \<open>retry.py: RetryConfig and the retry predicates\<close>

text \<open>
  The fields of \<^verbatim>\<open>RetryConfig\<close> that the client reads. (The client takes its
  delays from its own \<^verbatim>\<open>ExponentialBackoff\<close>, not from the delay fields of
  \<^verbatim>\<open>RetryConfig\<close>.)
\<close>

record RetryConfig =
  max_attempts :: int
  retry_on_status :: "int set"
  respect_retry_after :: bool
  max_retry_after :: real
  retry_on_timeout :: bool
  retry_on_connection_error :: bool
  idempotent_methods :: "string set"

definition default_retry_config :: "int \<Rightarrow> RetryConfig" where
  "default_retry_config n =
     \<lparr>max_attempts = n, retry_on_status = {429, 500, 502, 503, 504},
      respect_retry_after = True, max_retry_after = 300,
      retry_on_timeout = True, retry_on_connection_error = True,
      idempotent_methods = {''GET'', ''HEAD'', ''OPTIONS'', ''PUT'', ''DELETE''}\<rparr>"

definition should_retry_on_status :: "int \<Rightarrow> RetryConfig \<Rightarrow> bool" where
  "should_retry_on_status status config \<longleftrightarrow> status \<in> retry_on_status config"

definition is_idempotent_method :: "string \<Rightarrow> RetryConfig \<Rightarrow> bool" where
  "is_idempotent_method m config \<longleftrightarrow> str_upper m \<in> idempotent_methods config"

text \<open>
  \<^verbatim>\<open>parse_retry_after\<close>. \<open>to_float s\<close> is \<^verbatim>\<open>float(s)\<close> (\<open>None\<close> when it raises
  ValueError); \<open>date_delta s\<close> is the number of seconds from now to the HTTP date \<open>s\<close>
  (\<open>None\<close> when \<^verbatim>\<open>parsedate_to_datetime\<close> raises). Both are library functions and
  arguments of the model.
\<close>

definition parse_retry_after ::
  "(string \<Rightarrow> real option) \<Rightarrow> (string \<Rightarrow> real option) \<Rightarrow> string option \<Rightarrow> real option" where
  "parse_retry_after to_float date_delta header_value =
     (case header_value of
        None \<Rightarrow> None
      | Some s \<Rightarrow>
          (case to_float s of
             Some x \<Rightarrow> Some x
           | None \<Rightarrow>
               (case date_delta s of
                  Some d \<Rightarrow> Some (max 0 d)
                | None \<Rightarrow> None)))"

text \<open>Python truthiness of an \<^verbatim>\<open>Optional[float]\<close>: \<^verbatim>\<open>None\<close> and \<^verbatim>\<open>0.0\<close> are false.\<close>

definition truthy :: "real option \<Rightarrow> bool" where
  "truthy r \<longleftrightarrow> (case r of None \<Rightarrow> False | Some x \<Rightarrow> x \<noteq> 0)"

text \<open>\<^verbatim>\<open>int(x)\<close> for a float: truncation towards zero.\<close>

definition int_of_float :: "real \<Rightarrow> int" where
  "int_of_float x = (if 0 \<le> x then \<lfloor>x\<rfloor> else \<lceil>x\<rceil>)"

subsection \<open>client.py: the request pipeline\<close>

text \<open>
  The response object, as far as the pipeline reads it: the status code, the value of
  \<^verbatim>\<open>response.headers.get("Retry-After")\<close>, and the body text.
\<close>

record Response =
  status_code :: int
  retry_after_header :: "string option"
  body_text :: string

text \<open>What one call of \<^verbatim>\<open>self._client.request(...)\<close> does.\<close>

datatype transport_outcome =
    Responds Response
  | RaisesTimeout
  | RaisesConnectError
  | RaisesOther

text \<open>
  The exceptions that travel through \<^verbatim>\<open>_make_request\<close>: the classes of
  \<^verbatim>\<open>exceptions.py\<close> with the fields the claims read, the exceptions of the
  transport (\<^verbatim>\<open>httpx.TimeoutException\<close>, \<^verbatim>\<open>httpx.ConnectError\<close>, any other), and
  built-in exceptions of the interpreter. \<open>RequestError\<close> carries its \<^verbatim>\<open>cause\<close>.
\<close>

datatype exc =
    RateLimitExceeded int "int option" int
  | CircuitBreakerOpen int real
  | ServerError int
  | TimeoutError
  | ConnectionError
  | RequestError "exc option"
  | HttpxTimeoutException
  | HttpxConnectError
  | OtherException
  | PyError py_error

record ClientStats =
  total_requests :: nat
  successful_requests :: nat
  failed_requests :: nat
  total_retries :: nat
  cache_hits :: nat
  cache_misses :: nat
  circuit_breaker_trips :: nat

definition new_stats :: ClientStats where
  "new_stats =
     \<lparr>total_requests = 0, successful_requests = 0, failed_requests = 0, total_retries = 0,
      cache_hits = 0, cache_misses = 0, circuit_breaker_trips = 0\<rparr>"

text \<open>
  The attributes of the client that \<^verbatim>\<open>_make_request\<close> only reads (\<open>ClientSetup\<close>)
  and those it updates (\<open>ClientState\<close>). Three more components of the state record
  what the call does to the outside: \<open>slept\<close> lists the arguments of
  \<^verbatim>\<open>time.sleep\<close> in order, \<open>requests_sent\<close> counts the transport attempts, and
  \<open>ticks\<close> counts the clock readings made for the breaker and the cache.
\<close>

record ClientSetup =
  retry_config :: RetryConfig
  backoff :: ExponentialBackoff

record ClientState =
  circuit_breaker :: "exc CircuitBreaker"
  cache :: "Response InMemoryCache option"
  stats :: ClientStats
  retry_count :: int
  retry_delays :: "real list"
  slept :: "real list"
  requests_sent :: nat
  ticks :: nat

text \<open>
  The arguments of one call, after \<^verbatim>\<open>_build_url\<close> and \<^verbatim>\<open>_merge_headers\<close>.
\<close>

record Request =
  req_method :: string
  req_url :: string
  req_params :: "(string \<times> json) list option"
  req_headers :: "(string \<times> string) list"
  use_cache :: bool

text \<open>
  The surroundings of one call: what the transport does at each attempt (attempts are
  numbered from 1), the value of \<^verbatim>\<open>random()\<close> drawn at each attempt, the clock at
  each reading, and the library functions. Nothing is assumed about them. The
  middleware chain and the logger are taken not to raise and not to change the
  request; they do not appear.
\<close>

record Env =
  env_transport :: "int \<Rightarrow> transport_outcome"
  env_random :: "int \<Rightarrow> real"
  env_clock :: "nat \<Rightarrow> real"
  env_float :: "string \<Rightarrow> real option"
  env_date_delta :: "string \<Rightarrow> real option"
  env_dumps :: "json \<Rightarrow> string"
  env_sha256 :: "string \<Rightarrow> string"

text \<open>The result of the body of the \<^verbatim>\<open>try\<close> statement and of one loop iteration.\<close>

datatype flow =
    Continue ClientState
  | Return Response ClientState
  | Raise exc ClientState

text \<open>\<^verbatim>\<open>time.sleep(d)\<close> raises ValueError for a negative argument.\<close>

definition sleep :: "real \<Rightarrow> ClientState \<Rightarrow> py_error + ClientState" where
  "sleep d s = (if d < 0 then Inl ValueError else Inr (s\<lparr>slept := slept s @ [d]\<rparr>))"

definition breaker_allow :: "Env \<Rightarrow> ClientState \<Rightarrow> bool \<times> ClientState" where
  "breaker_allow env s =
     (case allow_request (circuit_breaker s) (env_clock env (ticks s)) of
        (ok, cb) \<Rightarrow> (ok, s\<lparr>circuit_breaker := cb, ticks := ticks s + 1\<rparr>))"

definition breaker_failure :: "Env \<Rightarrow> ClientState \<Rightarrow> ClientState" where
  "breaker_failure env s =
     s\<lparr>circuit_breaker := record_failure (circuit_breaker s) (env_clock env (ticks s)) None,
       ticks := ticks s + 1\<rparr>"

definition breaker_success :: "ClientState \<Rightarrow> ClientState" where
  "breaker_success s = s\<lparr>circuit_breaker := record_success (circuit_breaker s)\<rparr>"

definition note_retry :: "real \<Rightarrow> bool \<Rightarrow> ClientState \<Rightarrow> ClientState" where
  "note_retry delay counted s =
     s\<lparr>retry_count := (if counted then retry_count s + 1 else retry_count s),
       retry_delays := retry_delays s @ [delay],
       stats := (stats s)\<lparr>total_retries := total_retries (stats s) + 1\<rparr>\<rparr>"

definition note_failed :: "ClientState \<Rightarrow> ClientState" where
  "note_failed s = s\<lparr>stats := (stats s)\<lparr>failed_requests := failed_requests (stats s) + 1\<rparr>\<rparr>"

definition cacheable :: "Request \<Rightarrow> ClientState \<Rightarrow> bool" where
  "cacheable req s \<longleftrightarrow> cache s \<noteq> None \<and> use_cache req \<and> str_upper (req_method req) = ''GET''"

definition request_cache_key :: "Env \<Rightarrow> Request \<Rightarrow> string" where
  "request_cache_key env req =
     generate_cache_key (env_dumps env) (env_sha256 env) (req_method req) (req_url req)
       (req_params req) (Some (req_headers req)) None"

text \<open>
  The success path after the two status tests: record the success, count it, and store
  the response when the request is cacheable and the status is 2xx.
\<close>

definition on_success :: "Env \<Rightarrow> Request \<Rightarrow> Response \<Rightarrow> ClientState \<Rightarrow> flow" where
  "on_success env req response s =
     (let s1 = breaker_success s;
          s2 = s1\<lparr>stats := (stats s1)\<lparr>successful_requests :=
                                successful_requests (stats s1) + 1\<rparr>\<rparr>
      in if cacheable req s2 \<and> 200 \<le> status_code response \<and> status_code response < 300 then
           (case cache s2 of
              None \<Rightarrow> Return response s2
            | Some c \<Rightarrow>
                (case cache_set c (request_cache_key env req) response None None
                        (env_clock env (ticks s2)) of
                   Inl e \<Rightarrow> Raise (PyError e) s2
                 | Inr c' \<Rightarrow> Return response (s2\<lparr>cache := Some c', ticks := ticks s2 + 1\<rparr>)))
         else Return response s2)"

text \<open>The branch \<^verbatim>\<open>if response.status_code == 429\<close>.\<close>

definition on_429 :: "Env \<Rightarrow> ClientSetup \<Rightarrow> int \<Rightarrow> Response \<Rightarrow> ClientState \<Rightarrow> flow" where
  "on_429 env cfg attempt response s =
     (let retry_after = parse_retry_after (env_float env) (env_date_delta env)
                          (retry_after_header response)
      in case (if truthy retry_after then Inr (the retry_after)
               else calculate_delay (backoff cfg) (env_random env attempt) attempt) of
           Inl e \<Rightarrow> Raise (PyError e) s
         | Inr delay0 \<Rightarrow>
             (let delay = (if respect_retry_after (retry_config cfg) \<and> truthy retry_after
                           then min delay0 (max_retry_after (retry_config cfg)) else delay0);
                  s1 = note_retry delay True s
              in if attempt \<ge> max_attempts (retry_config cfg) then
                   Raise (RateLimitExceeded attempt
                            (if truthy retry_after then Some (int_of_float delay) else None) 429)
                     (breaker_failure env s1)
                 else
                   (case sleep delay s1 of
                      Inl e \<Rightarrow> Raise (PyError e) s1
                    | Inr s2 \<Rightarrow> Continue s2)))"

text \<open>The branch \<^verbatim>\<open>if should_retry_on_status(...)\<close>.\<close>

definition on_retryable_status ::
  "Env \<Rightarrow> ClientSetup \<Rightarrow> Request \<Rightarrow> int \<Rightarrow> Response \<Rightarrow> ClientState \<Rightarrow> flow" where
  "on_retryable_status env cfg req attempt response s =
     (if \<not> is_idempotent_method (req_method req) (retry_config cfg) then
        Raise (ServerError (status_code response)) (breaker_failure env s)
      else
        (case calculate_delay (backoff cfg) (env_random env attempt) attempt of
           Inl e \<Rightarrow> Raise (PyError e) s
         | Inr delay \<Rightarrow>
             (let s1 = note_retry delay True s
              in if attempt \<ge> max_attempts (retry_config cfg) then
                   Raise (ServerError (status_code response)) (breaker_failure env s1)
                 else
                   (case sleep delay s1 of
                      Inl e \<Rightarrow> Raise (PyError e) s1
                    | Inr s2 \<Rightarrow> Continue s2))))"

text \<open>The body of the \<^verbatim>\<open>try\<close> statement.\<close>

definition try_body :: "Env \<Rightarrow> ClientSetup \<Rightarrow> Request \<Rightarrow> int \<Rightarrow> ClientState \<Rightarrow> flow" where
  "try_body env cfg req attempt s =
     (let s1 = s\<lparr>requests_sent := requests_sent s + 1\<rparr>
      in case env_transport env attempt of
           RaisesTimeout \<Rightarrow> Raise HttpxTimeoutException s1
         | RaisesConnectError \<Rightarrow> Raise HttpxConnectError s1
         | RaisesOther \<Rightarrow> Raise OtherException s1
         | Responds response \<Rightarrow>
             if status_code response = 429 then on_429 env cfg attempt response s1
             else if should_retry_on_status (status_code response) (retry_config cfg)
             then on_retryable_status env cfg req attempt response s1
             else on_success env req response s1)"

text \<open>
  The handlers \<^verbatim>\<open>except httpx.TimeoutException\<close> and \<^verbatim>\<open>except httpx.ConnectError\<close>
  differ only in the flag they read and the exception they raise. An exception raised
  inside a handler leaves the function.
\<close>

definition on_transport_failure ::
  "Env \<Rightarrow> ClientSetup \<Rightarrow> int \<Rightarrow> bool \<Rightarrow> exc \<Rightarrow> ClientState \<Rightarrow> flow" where
  "on_transport_failure env cfg attempt retry_flag final s =
     (let s1 = note_failed (breaker_failure env s)
      in if retry_flag \<and> attempt < max_attempts (retry_config cfg) then
           (case calculate_delay (backoff cfg) (env_random env attempt) attempt of
              Inl e \<Rightarrow> Raise (PyError e) s1
            | Inr delay \<Rightarrow>
                (let s2 = note_retry delay False s1
                 in case sleep delay s2 of
                      Inl e \<Rightarrow> Raise (PyError e) s2
                    | Inr s3 \<Rightarrow> Continue s3))
         else Raise final s1)"

text \<open>
  One iteration of the loop after the breaker gate: the \<^verbatim>\<open>try\<close> body and, when it
  raises, the first handler that matches. The last handler, \<^verbatim>\<open>except Exception\<close>,
  matches every exception the first two do not, also those the body raises itself.
\<close>

definition except_handlers :: "Env \<Rightarrow> ClientSetup \<Rightarrow> int \<Rightarrow> flow \<Rightarrow> flow" where
  "except_handlers env cfg attempt body =
     (case body of
        Continue s' \<Rightarrow> Continue s'
      | Return response s' \<Rightarrow> Return response s'
      | Raise e s' \<Rightarrow>
          (case e of
             HttpxTimeoutException \<Rightarrow>
               on_transport_failure env cfg attempt (retry_on_timeout (retry_config cfg))
                 TimeoutError s'
           | HttpxConnectError \<Rightarrow>
               on_transport_failure env cfg attempt
                 (retry_on_connection_error (retry_config cfg)) ConnectionError s'
           | _ \<Rightarrow> Raise (RequestError (Some e)) (note_failed (breaker_failure env s'))))"

definition attempt_once :: "Env \<Rightarrow> ClientSetup \<Rightarrow> Request \<Rightarrow> int \<Rightarrow> ClientState \<Rightarrow> flow" where
  "attempt_once env cfg req attempt s =
     except_handlers env cfg attempt (try_body env cfg req attempt s)"

text \<open>
  The \<^verbatim>\<open>while\<close> loop. \<open>last_exception\<close> is the local variable of that name: it is set
  by the handlers, which either leave the function or continue.
\<close>

definition last_exception_after :: "Env \<Rightarrow> int \<Rightarrow> exc option \<Rightarrow> exc option" where
  "last_exception_after env attempt last_exception =
     (case env_transport env attempt of
        RaisesTimeout \<Rightarrow> Some HttpxTimeoutException
      | RaisesConnectError \<Rightarrow> Some HttpxConnectError
      | _ \<Rightarrow> last_exception)"

function attempt_loop ::
  "Env \<Rightarrow> ClientSetup \<Rightarrow> Request \<Rightarrow> int \<Rightarrow> exc option \<Rightarrow> ClientState
     \<Rightarrow> (exc + Response) \<times> ClientState" where
  "attempt_loop env cfg req attempt last_exception s =
     (if attempt < max_attempts (retry_config cfg) then
        (let attempt' = attempt + 1;
             s1 = s\<lparr>stats := (stats s)\<lparr>total_requests := total_requests (stats s) + 1\<rparr>\<rparr>
         in case breaker_allow env s1 of
              (False, s2) \<Rightarrow>
                (Inl (CircuitBreakerOpen (failure_count (circuit_breaker s2))
                        (recovery_timeout (circuit_breaker s2))),
                 s2\<lparr>stats := (stats s2)\<lparr>circuit_breaker_trips :=
                                  circuit_breaker_trips (stats s2) + 1\<rparr>\<rparr>)
            | (True, s2) \<Rightarrow>
                (case attempt_once env cfg req attempt' s2 of
                   Continue s3 \<Rightarrow>
                     attempt_loop env cfg req attempt'
                       (last_exception_after env attempt' last_exception) s3
                 | Return response s3 \<Rightarrow> (Inr response, s3)
                 | Raise e s3 \<Rightarrow> (Inl e, s3)))
      else
        (case last_exception of
           Some e \<Rightarrow> (Inl e, s)
         | None \<Rightarrow> (Inl (RequestError None), s)))"
  by pat_completeness auto
termination
  by (relation "measure (\<lambda>(env, cfg, req, attempt, last_exception, s).
        nat (max_attempts (retry_config cfg) - attempt))") auto

text \<open>\<^verbatim>\<open>_make_request\<close>: the cache lookup, then the loop.\<close>

definition make_request ::
  "Env \<Rightarrow> ClientSetup \<Rightarrow> Request \<Rightarrow> ClientState \<Rightarrow> (exc + Response) \<times> ClientState" where
  "make_request env cfg req s =
     (let run = (\<lambda>s'. attempt_loop env cfg req 0 None (s'\<lparr>retry_count := 0, retry_delays := []\<rparr>))
      in if cacheable req s then
           (case cache s of
              None \<Rightarrow> run s
            | Some c \<Rightarrow>
                (case cache_get c (request_cache_key env req) (env_clock env (ticks s)) of
                   (Some cached, c') \<Rightarrow>
                     (Inr cached,
                      s\<lparr>cache := Some c', ticks := ticks s + 1,
                        stats := (stats s)\<lparr>cache_hits := cache_hits (stats s) + 1\<rparr>\<rparr>)
                 | (None, c') \<Rightarrow>
                     run (s\<lparr>cache := Some c', ticks := ticks s + 1,
                            stats := (stats s)\<lparr>cache_misses := cache_misses (stats s) + 1\<rparr>\<rparr>)))
         else run s)"

text \<open>A fresh client: \<^verbatim>\<open>RateWiseClient(base_url, max_retries=n)\<close>, with or without a cache.\<close>

definition new_client_setup :: "int \<Rightarrow> ClientSetup" where
  "new_client_setup n = \<lparr>retry_config = default_retry_config n, backoff = default_backoff\<rparr>"

definition new_client_state :: "Response InMemoryCache option \<Rightarrow> ClientState" where
  "new_client_state c =
     \<lparr>circuit_breaker = new_breaker 5 2 60 (\<lambda>_. True) (\<lambda>_. False),
      cache = c, stats = new_stats, retry_count = 0, retry_delays = [],
      slept = [], requests_sent = 0, ticks = 0\<rparr>"

text \<open>
  Concrete surroundings for the examples: a transport script, \<^verbatim>\<open>random()\<close> always
  \<open>1/2\<close>, a clock that advances by one second per reading, \<^verbatim>\<open>float\<close> on the
  literals the examples use, no HTTP dates, and stand-ins for \<^verbatim>\<open>json.dumps\<close> and
  SHA-256 (the identity on key strings).
\<close>

definition example_float :: "string \<Rightarrow> real option" where
  "example_float s =
     (if s = ''1'' then Some 1 else if s = ''2'' then Some 2
      else if s = ''5'' then Some 5 else None)"

definition example_env :: "(int \<Rightarrow> transport_outcome) \<Rightarrow> Env" where
  "example_env script =
     \<lparr>env_transport = script, env_random = (\<lambda>_. 1 / 2), env_clock = (\<lambda>n. real n),
      env_float = example_float, env_date_delta = (\<lambda>_. None),
      env_dumps = (\<lambda>_. ''[]''), env_sha256 = (\<lambda>s. s)\<rparr>"

definition response_with :: "int \<Rightarrow> string option \<Rightarrow> Response" where
  "response_with status retry_after =
     \<lparr>status_code = status, retry_after_header = retry_after, body_text = ''{}''\<rparr>"

definition example_request :: "string \<Rightarrow> Request" where
  "example_request m =
     \<lparr>req_method = m, req_url = ''https://api.example.com/endpoint'', req_params = None,
      req_headers = [], use_cache = True\<rparr>"





definition cache_counters :: "ClientState \<Rightarrow> nat \<times> nat" where
  "cache_counters s = (cache_hits (stats s), cache_misses (stats s))"

text \<open>
  Transport scripts and configurations of the examples: a server that always answers
  429 with \<^verbatim>\<open>Retry-After: 1\<close> (the fixture of the repository's tests); one that answers
  429 with \<^verbatim>\<open>Retry-After: 5\<close> and then 200; one that answers 429 without the header
  and then 200; one that always answers 500; a configuration that does not respect
  \<^verbatim>\<open>Retry-After\<close>; a configuration whose \<open>retry_on_status\<close> is \<open>{500}\<close>; and a cache
  that already holds the response to the example GET request.
\<close>

definition always_429 :: "int \<Rightarrow> transport_outcome" where
  "always_429 n = Responds (response_with 429 (Some ''1''))"



definition always_500 :: "int \<Rightarrow> transport_outcome" where
  "always_500 n = Responds (response_with 500 None)"




declare attempt_loop.simps [simp del]

declare evict_lru.simps [simp del]



text \<open>
  The two state invariants of the breaker: in \<open>CLOSED\<close> the failure count is below
  the failure threshold, in \<open>HALF_OPEN\<close> the success count is below the success
  threshold.
\<close>

definition breaker_inv :: "'e CircuitBreaker \<Rightarrow> bool" where
  "breaker_inv cb \<longleftrightarrow>
     (state cb = CLOSED \<longrightarrow> failure_count cb < failure_threshold cb) \<and>
     (state cb = HALF_OPEN \<longrightarrow> success_count cb < success_threshold cb)"

text \<open>
  \<^verbatim>\<open>CircuitBreaker(failure_threshold=2, success_threshold=1, recovery_timeout=30.0)\<close>,
  and the same breaker after two failures at times 0 and 1.
\<close>

definition example_breaker :: "unit CircuitBreaker" where
  "example_breaker = new_breaker 2 1 30 (\<lambda>_. True) (\<lambda>_. False)"

definition tripped_breaker :: "unit CircuitBreaker" where
  "tripped_breaker = breaker_run example_breaker [RecordFailure 0 None, RecordFailure 1 None]"

section \<open>Theorems\<close>

subsection \<open>C1: bounds of the backoff delay\<close>






subsection \<open>C5: the circuit breaker state machine\<close>

lemma transition_to_simps:
  "state (transition_to cb s) = s"
  "failure_threshold (transition_to cb s) = failure_threshold cb"
  "success_threshold (transition_to cb s) = success_threshold cb"
  "failure_count (transition_to cb s) = (if state cb \<noteq> s \<and> s = CLOSED then 0 else failure_count cb)"
  "success_count (transition_to cb s) = (if state cb \<noteq> s \<and> s \<noteq> OPEN then 0 else success_count cb)"
  "last_failure_time (transition_to cb s) = last_failure_time cb"
  by (cases s; simp add: transition_to_def Let_def)+

lemma allow_request_eq:
  "allow_request cb now =
     (if state cb = OPEN \<and> \<not> should_attempt_recovery cb now then
        (False, cb\<lparr>metrics := (metrics cb)\<lparr>rejected_calls := rejected_calls (metrics cb) + 1\<rparr>\<rparr>)
      else if state cb = OPEN then
        (True, cb\<lparr>state := HALF_OPEN, success_count := 0,
                  metrics := (metrics cb)\<lparr>state_transitions := state_transitions (metrics cb) + 1\<rparr>\<rparr>)
      else (True, cb))"
  by (simp add: allow_request_def is_open_def transition_to_def Let_def)

lemma record_failure_counted:
  assumes "counted_failure cb exception"
  shows "state (record_failure cb now exception) =
           (if state cb = CLOSED \<and> failure_count cb + 1 < failure_threshold cb then CLOSED else OPEN)"
    and "failure_count (record_failure cb now exception) = failure_count cb + 1"
    and "last_failure_time (record_failure cb now exception) = Some now"
  using assms
  by (cases "state cb"; auto simp: counted_failure_def record_failure_def transition_to_simps Let_def split: option.splits)+

lemma record_failure_not_counted:
  "\<not> counted_failure cb exception \<Longrightarrow> record_failure cb now exception = cb"
  by (auto simp: counted_failure_def record_failure_def split: option.splits)


lemma thresholds_step:
  "failure_threshold (breaker_step cb op) = failure_threshold cb"
  "success_threshold (breaker_step cb op) = success_threshold cb"
  by (cases op; auto simp: allow_request_eq is_open_def record_success_def record_failure_def reset_def transition_to_simps Let_def)+

lemma inv_step:
  assumes "1 \<le> failure_threshold cb" "1 \<le> success_threshold cb" "breaker_inv cb"
  shows "breaker_inv (breaker_step cb op)"
  using assms
  by (cases op; auto simp: breaker_inv_def allow_request_eq is_open_def record_success_def record_failure_def reset_def transition_to_simps Let_def)


lemma breaker_run_snoc: "breaker_run cb (ops @ [op]) = breaker_step (breaker_run cb ops) op"
  by (simp add: breaker_run_def)

lemma breaker_run_thresholds:
  "failure_threshold (breaker_run cb ops) = failure_threshold cb"
  "success_threshold (breaker_run cb ops) = success_threshold cb"
  by (induction ops rule: rev_induct) (simp_all add: breaker_run_snoc thresholds_step breaker_run_def)

lemma breaker_run_inv:
  assumes "1 \<le> failure_threshold cb" "1 \<le> success_threshold cb" "breaker_inv cb"
  shows "breaker_inv (breaker_run cb ops)"
proof (induction ops rule: rev_induct)
  case Nil
  then show ?case using assms(3) by (simp add: breaker_run_def)
next
  case (snoc op ops)
  then show ?case
    using assms(1,2) by (simp add: breaker_run_snoc inv_step breaker_run_thresholds)
qed

lemma new_breaker_inv:
  "1 \<le> ft \<Longrightarrow> 1 \<le> st \<Longrightarrow> breaker_inv (new_breaker ft st rt expected excluded)"
  by (simp add: breaker_inv_def new_breaker_def)

lemma record_success_half_open:
  assumes "state cb = HALF_OPEN"
  shows "state (record_success cb) =
           (if success_count cb + 1 \<ge> success_threshold cb then CLOSED else HALF_OPEN)"
    and "success_count (record_success cb) =
           (if success_count cb + 1 \<ge> success_threshold cb then 0 else success_count cb + 1)"
    and "success_count cb + 1 \<ge> success_threshold cb \<Longrightarrow> failure_count (record_success cb) = 0"
  using assms by (simp_all add: record_success_def transition_to_simps Let_def)

lemma breaker_run_replicate_Suc:
  "breaker_run cb (replicate (Suc k) RecordSuccess)
     = record_success (breaker_run cb (replicate k RecordSuccess))"
proof -
  have a: "replicate (Suc k) RecordSuccess = replicate k RecordSuccess @ [RecordSuccess]"
    by (simp add: replicate_append_same)
  show ?thesis
    unfolding a breaker_run_snoc by simp
qed

lemma successes_in_half_open:
  assumes "state cb = HALF_OPEN" "success_count cb = 0" "1 \<le> success_threshold cb"
    and "int k < success_threshold cb"
  shows "state (breaker_run cb (replicate k RecordSuccess)) = HALF_OPEN
       \<and> success_count (breaker_run cb (replicate k RecordSuccess)) = int k"
  using assms(4)
proof (induction k)
  case 0
  then show ?case using assms(1,2) by (simp add: breaker_run_def)
next
  case (Suc k)
  then have ih: "state (breaker_run cb (replicate k RecordSuccess)) = HALF_OPEN"
    "success_count (breaker_run cb (replicate k RecordSuccess)) = int k"
    by simp_all
  have eq: "breaker_run cb (replicate (Suc k) RecordSuccess)
           = record_success (breaker_run cb (replicate k RecordSuccess))"
    by (rule breaker_run_replicate_Suc)
  show ?case
    unfolding eq using ih Suc.prems
    by (simp add: record_success_half_open breaker_run_thresholds)
qed

lemma successes_close:
  assumes "state cb = HALF_OPEN" "success_count cb = 0" "1 \<le> success_threshold cb"
  shows "state (breaker_run cb (replicate (nat (success_threshold cb)) RecordSuccess)) = CLOSED"
proof -
  obtain k where k: "nat (success_threshold cb) = Suc k"
    using assms(3) by (cases "nat (success_threshold cb)") auto
  then have lt: "int k < success_threshold cb" by linarith
  have mid: "state (breaker_run cb (replicate k RecordSuccess)) = HALF_OPEN"
    "success_count (breaker_run cb (replicate k RecordSuccess)) = int k"
    using successes_in_half_open[OF assms lt] by simp_all
  have eq: "breaker_run cb (replicate (Suc k) RecordSuccess)
           = record_success (breaker_run cb (replicate k RecordSuccess))"
    by (rule breaker_run_replicate_Suc)
  have "int k + 1 \<ge> success_threshold cb" using k by linarith
  then show ?thesis
    unfolding k eq using mid by (simp add: record_success_half_open breaker_run_thresholds)
qed

lemma reset_simps:
  "state (reset cb) = CLOSED" "failure_count (reset cb) = 0" "success_count (reset cb) = 0"
  "last_failure_time (reset cb) = None"
  by (simp_all add: reset_def transition_to_simps)

text \<open>
  C5, as stated, fails on the code for a threshold below 1: the constructor accepts any
  threshold, and a fresh breaker with \<open>failure_threshold = 0\<close> is \<open>CLOSED\<close> with
  \<open>failure_count = 0\<close>, which is not below the threshold.
\<close>

theorem closed_invariant_fails_for_zero_threshold:
  "state (new_breaker 0 2 60 (\<lambda>_::unit. True) (\<lambda>_. False)) = CLOSED
   \<and> \<not> failure_count (new_breaker 0 2 60 (\<lambda>_::unit. True) (\<lambda>_. False))
         < failure_threshold (new_breaker 0 2 60 (\<lambda>_::unit. True) (\<lambda>_. False))"
  by (simp add: new_breaker_def)

text \<open>
  C5 (amended): the circuit breaker implements the three-state machine.
  \<^item> \<open>allow_request\<close> denies if and only if the state is \<open>OPEN\<close> and the recovery
    timeout has not elapsed since \<open>last_failure_time\<close>; a denial increments
    \<open>rejected_calls\<close> and changes nothing else; in \<open>OPEN\<close> with the timeout elapsed
    it moves to \<open>HALF_OPEN\<close> (resetting \<open>success_count\<close>) and allows; in the other
    states it allows and changes nothing.
  \<^item> A counted failure increments \<open>failure_count\<close>, stores the time, and leaves the
    breaker \<open>CLOSED\<close> only if it was \<open>CLOSED\<close> and the new count is below
    \<open>failure_threshold\<close>; otherwise the breaker is \<open>OPEN\<close> afterwards (so any
    counted failure in \<open>HALF_OPEN\<close> opens it). A failure that the exception filter
    rejects changes nothing.
  \<^item> A success in \<open>HALF_OPEN\<close> increments \<open>success_count\<close> and closes the breaker
    when the count reaches \<open>success_threshold\<close>; \<open>success_threshold\<close> successes
    after entering \<open>HALF_OPEN\<close> close it.
  \<^item> Every transition to \<open>CLOSED\<close> resets both counts, every transition to
    \<open>HALF_OPEN\<close> resets \<open>success_count\<close>.
  \<^item> Provided \<open>failure_threshold \<ge> 1\<close> and \<open>success_threshold \<ge> 1\<close> (the
    constructor does not check this), after any sequence of operations on a fresh
    breaker: in \<open>CLOSED\<close>, \<open>failure_count < failure_threshold\<close>; in \<open>HALF_OPEN\<close>,
    \<open>success_count < success_threshold\<close>.
  \<^item> After \<open>reset()\<close> the state is \<open>CLOSED\<close> and both counts are 0.
\<close>

theorem circuit_breaker_state_machine:
  fixes c :: "'e CircuitBreaker"
  assumes "1 \<le> ft" and "1 \<le> st"
  shows
    "allow_request c now =
       (if state c = OPEN \<and> \<not> should_attempt_recovery c now then
          (False, c\<lparr>metrics := (metrics c)\<lparr>rejected_calls := rejected_calls (metrics c) + 1\<rparr>\<rparr>)
        else if state c = OPEN then
          (True, c\<lparr>state := HALF_OPEN, success_count := 0,
                   metrics := (metrics c)\<lparr>state_transitions :=
                                state_transitions (metrics c) + 1\<rparr>\<rparr>)
        else (True, c))
     \<and> (counted_failure c exc \<longrightarrow>
          state (record_failure c now exc) =
            (if state c = CLOSED \<and> failure_count c + 1 < failure_threshold c
             then CLOSED else OPEN)
          \<and> failure_count (record_failure c now exc) = failure_count c + 1
          \<and> last_failure_time (record_failure c now exc) = Some now)
     \<and> (\<not> counted_failure c exc \<longrightarrow> record_failure c now exc = c)
     \<and> (state c = HALF_OPEN \<longrightarrow>
          state (record_success c) =
            (if success_count c + 1 \<ge> success_threshold c then CLOSED else HALF_OPEN)
          \<and> success_count (record_success c) =
            (if success_count c + 1 \<ge> success_threshold c then 0 else success_count c + 1)
          \<and> (success_count c + 1 \<ge> success_threshold c \<longrightarrow>
                failure_count (record_success c) = 0))
     \<and> (state c = HALF_OPEN \<and> success_count c = 0 \<and> 1 \<le> success_threshold c \<longrightarrow>
          state (breaker_run c (replicate (nat (success_threshold c)) RecordSuccess)) = CLOSED)
     \<and> (state c \<noteq> CLOSED \<longrightarrow>
          state (transition_to c CLOSED) = CLOSED
          \<and> failure_count (transition_to c CLOSED) = 0
          \<and> success_count (transition_to c CLOSED) = 0)
     \<and> (state c \<noteq> HALF_OPEN \<longrightarrow>
          state (transition_to c HALF_OPEN) = HALF_OPEN
          \<and> success_count (transition_to c HALF_OPEN) = 0)
     \<and> breaker_inv (breaker_run (new_breaker ft st rt expected excluded) ops)
     \<and> state (reset c) = CLOSED \<and> failure_count (reset c) = 0 \<and> success_count (reset c) = 0"
proof -
  have "breaker_inv (breaker_run (new_breaker ft st rt expected excluded) ops)"
    by (rule breaker_run_inv) (use assms in \<open>simp_all add: new_breaker_inv, simp_all add: new_breaker_def\<close>)
  then show ?thesis
    using record_failure_counted[of c exc now] record_failure_not_counted[of c exc now]
      record_success_half_open[of c] successes_close[of c]
    by (simp add: allow_request_eq transition_to_simps reset_simps)
qed

theorem circuit_breaker_state_machine_witness:
  "(1::int) \<le> 2 \<and> (1::int) \<le> 1
   \<and> state tripped_breaker = OPEN
   \<and> fst (allow_request tripped_breaker 5) = False
   \<and> rejected_calls (metrics (snd (allow_request tripped_breaker 5))) = 1
   \<and> fst (allow_request tripped_breaker 40) = True
   \<and> state (snd (allow_request tripped_breaker 40)) = HALF_OPEN
   \<and> state (record_failure (snd (allow_request tripped_breaker 40)) 41 None) = OPEN
   \<and> state (record_success (snd (allow_request tripped_breaker 40))) = CLOSED
   \<and> breaker_inv (breaker_run example_breaker
         [RecordFailure 0 None, RecordFailure 1 None, AllowRequest 40, RecordSuccess])
   \<and> state (reset tripped_breaker) = CLOSED"
proof -
  note sm = circuit_breaker_state_machine [of 2 1 tripped_breaker 5 None 30
      "\<lambda>_::unit. True" "\<lambda>_::unit. False"
      "[RecordFailure 0 None, RecordFailure 1 None, AllowRequest 40, RecordSuccess]"]
  have inv: "breaker_inv (breaker_run example_breaker
         [RecordFailure 0 None, RecordFailure 1 None, AllowRequest 40, RecordSuccess])"
    using sm by (simp add: example_breaker_def)
  have tripped: "tripped_breaker =
      \<lparr>failure_threshold = 2, success_threshold = 1, recovery_timeout = 30,
       expected_exceptions = \<lambda>_. True, excluded_exceptions = \<lambda>_. False,
       state = OPEN, failure_count = 2, success_count = 0, last_failure_time = Some 1,
       metrics = \<lparr>total_calls = 2, successful_calls = 0, failed_calls = 2,
                  rejected_calls = 0, state_transitions = 1\<rparr>\<rparr>"
    by (simp add: tripped_breaker_def example_breaker_def new_breaker_def breaker_run_def
        record_failure_def transition_to_def Let_def)
  have deny: "fst (allow_request tripped_breaker 5) = False
      \<and> rejected_calls (metrics (snd (allow_request tripped_breaker 5))) = 1"
    using sm by (simp add: tripped should_attempt_recovery_def)
  have probe: "allow_request tripped_breaker 40 =
      (True, tripped_breaker\<lparr>state := HALF_OPEN, success_count := 0,
          metrics := (metrics tripped_breaker)\<lparr>state_transitions := 2\<rparr>\<rparr>)"
    by (simp add: tripped allow_request_def is_open_def should_attempt_recovery_def
        transition_to_def Let_def)
  have again: "state (record_failure (snd (allow_request tripped_breaker 40)) 41 None) = OPEN"
    unfolding probe by (simp add: tripped record_failure_def transition_to_def Let_def)
  have close: "state (record_success (snd (allow_request tripped_breaker 40))) = CLOSED"
    unfolding probe by (simp add: tripped record_success_def transition_to_def Let_def)
  have "state (reset tripped_breaker) = CLOSED"
    using sm by simp
  moreover have "state tripped_breaker = OPEN"
    by (simp add: tripped)
  moreover have "fst (allow_request tripped_breaker 40) = True"
    "state (snd (allow_request tripped_breaker 40)) = HALF_OPEN"
    unfolding probe by simp_all
  ultimately show ?thesis
    using inv deny again close by simp
qed

subsection \<open>C6: redaction of headers and query parameters\<close>

lemma map_of_redact_headers:
  "map_of (redact_headers rv sha cfg hs) k =
     map_option (\<lambda>v. if sensitive_header cfg k then mask_value sha cfg v else rv v) (map_of hs k)"
  by (induction hs) (auto simp: redact_headers_def sensitive_header_def Let_def)

lemma map_of_redact_params:
  "map_of (redact_params sha cfg ps) k =
     map_option (\<lambda>vals. if sensitive_param cfg k then map (mask_value sha cfg) vals else vals)
       (map_of ps k)"
  by (induction ps) (auto simp: redact_params_def sensitive_param_def Let_def)

lemma mask_value_partial:
  assumes "mask_style cfg = PARTIAL" "1 \<le> partial_mask_chars cfg"
  shows "mask_value sha cfg v =
     (if int (length v) \<le> 2 * partial_mask_chars cfg then ''****''
      else take (nat (partial_mask_chars cfg)) v @ ''...''
           @ drop (length v - nat (partial_mask_chars cfg)) v)"
  using assms by (simp add: mask_value_def slice_to_def slice_from_def Let_def mult.commute)

lemma mask_value_length:
  assumes "mask_style cfg = PARTIAL \<longrightarrow> 1 \<le> partial_mask_chars cfg"
  shows "length (mask_value sha cfg v) \<le> mask_length_bound cfg"
proof (cases "mask_style cfg")
  case FULL
  then show ?thesis
    by (simp add: mask_value_def mask_length_bound_def REDACTION_PLACEHOLDER_def)
next
  case PARTIAL
  then show ?thesis
    using assms by (auto simp: mask_value_partial mask_length_bound_def)
next
  case HASH
  then show ?thesis
    by (simp add: mask_value_def mask_length_bound_def)
qed

text \<open>
  C6, as stated, fails on the code: a mask can contain the value it replaces. Under the
  default configuration (partial masking, 4 characters) the header value
  \<^verbatim>\<open>abcd...efgh\<close> has more than 8 characters, so its mask is its first four
  characters, three dots and its last four characters: the value itself, which
  \<open>redact_headers\<close> returns unchanged for the sensitive header \<^verbatim>\<open>Authorization\<close>.
  Under full masking the value \<^verbatim>\<open>REDACTED\<close> occurs in the placeholder.
\<close>

theorem mask_can_contain_the_value:
  "redact_headers (\<lambda>v. v) (\<lambda>v. []) default_log_config [(''Authorization'', ''abcd...efgh'')]
     = [(''Authorization'', ''abcd...efgh'')]
   \<and> sensitive_header default_log_config ''Authorization''
   \<and> sublist ''abcd...efgh'' (mask_value (\<lambda>v. []) default_log_config ''abcd...efgh'')
   \<and> sublist ''REDACTED''
        (mask_value (\<lambda>v. []) (default_log_config\<lparr>mask_style := FULL\<rparr>) ''REDACTED'')"
  by code_simp

text \<open>
  C6 (amended): for every header whose lower-cased name is in the configured
  \<open>redact_headers\<close> list, the value that \<open>redact_headers\<close> returns for it is the mask of
  the original value, and for every query parameter whose lower-cased name is in the
  configured \<open>redact_query_params\<close> list, every value that \<open>redact_url\<close> hands to the
  URL encoder is the mask of the original value. The mask follows the configured
  style: FULL gives the placeholder \<^verbatim>\<open>***REDACTED***\<close>; PARTIAL with \<open>n \<ge> 1\<close>
  characters gives \<^verbatim>\<open>****\<close> when the value has at most \<open>2n\<close> characters and otherwise
  its first \<open>n\<close> characters, three dots and its last \<open>n\<close> characters; HASH gives
  \<^verbatim>\<open>[HASH:\<close>, the first 8 characters of the SHA-256 hex digest, and \<^verbatim>\<open>]\<close>. The mask
  does not contain the original value as a substring whenever the value is longer than
  a mask can be: more than 14 characters under FULL, more than \<open>2n + 3\<close> under
  PARTIAL, more than 15 under HASH.
\<close>

theorem redaction_masks:
  "(sensitive_header cfg k \<and> map_of hs k = Some v \<longrightarrow>
      map_of (redact_headers rv sha cfg hs) k = Some (mask_value sha cfg v))
   \<and> (sensitive_param cfg k \<and> map_of ps k = Some vals \<longrightarrow>
      map_of (redact_params sha cfg ps) k = Some (map (mask_value sha cfg) vals))
   \<and> (url_query lib u \<noteq> [] \<longrightarrow>
      redact_url lib sha cfg u =
        replace_query lib u
          (urlencode lib (redact_params sha cfg (parse_qs lib (url_query lib u)))))
   \<and> (mask_style cfg = FULL \<longrightarrow> mask_value sha cfg v = ''***REDACTED***'')
   \<and> (mask_style cfg = PARTIAL \<and> 1 \<le> partial_mask_chars cfg \<longrightarrow>
      mask_value sha cfg v =
        (if int (length v) \<le> 2 * partial_mask_chars cfg then ''****''
         else take (nat (partial_mask_chars cfg)) v @ ''...''
              @ drop (length v - nat (partial_mask_chars cfg)) v))
   \<and> (mask_style cfg = HASH \<longrightarrow> mask_value sha cfg v = ''[HASH:'' @ take 8 (sha v) @ '']'')
   \<and> ((mask_style cfg = PARTIAL \<longrightarrow> 1 \<le> partial_mask_chars cfg)
        \<and> mask_length_bound cfg < length v \<longrightarrow>
      \<not> sublist v (mask_value sha cfg v))"
proof -
  have "\<not> sublist v (mask_value sha cfg v)"
    if "mask_style cfg = PARTIAL \<longrightarrow> 1 \<le> partial_mask_chars cfg"
      "mask_length_bound cfg < length v"
  proof
    assume "sublist v (mask_value sha cfg v)"
    then have "length v \<le> length (mask_value sha cfg v)"
      by (rule sublist_length_le)
    then show False
      using mask_value_length[OF that(1), of sha v] that(2) by simp
  qed
  then show ?thesis
    using mask_value_partial[of cfg sha v]
    by (simp add: map_of_redact_headers map_of_redact_params redact_url_def Let_def
        mask_value_def REDACTION_PLACEHOLDER_def)
qed

theorem redaction_masks_witness:
  "map_of (redact_headers (\<lambda>v. v) (\<lambda>v. []) default_log_config
             [(''Authorization'', ''Bearer secret-token-12345'')]) ''Authorization''
     = Some ''Bear...2345''
   \<and> \<not> sublist ''Bearer secret-token-12345''
          (mask_value (\<lambda>v. []) default_log_config ''Bearer secret-token-12345'')"
proof -
  have a: "sensitive_header default_log_config ''Authorization''"
    by code_simp
  have b: "mask_value (\<lambda>v. []) default_log_config ''Bearer secret-token-12345'' = ''Bear...2345''"
    by code_simp
  have c: "mask_style default_log_config = PARTIAL" "partial_mask_chars default_log_config = 4"
    by (simp_all add: default_log_config_def)
  note t = redaction_masks [where cfg = default_log_config and k = "''Authorization''"
      and hs = "[(''Authorization'', ''Bearer secret-token-12345'')]"
      and v = "''Bearer secret-token-12345''" and rv = "\<lambda>v. v" and sha = "\<lambda>v. []"
      and ps = "[]" and vals = "[]" and u = "[]"
      and lib = "\<lparr>url_query = \<lambda>_. [], parse_qs = \<lambda>_. [], urlencode = \<lambda>_. [],
                 replace_query = \<lambda>a b. a\<rparr>"]
  have h: "(mask_style default_log_config = PARTIAL \<longrightarrow> 1 \<le> partial_mask_chars default_log_config)
      \<and> mask_length_bound default_log_config < length ''Bearer secret-token-12345''"
    by (simp add: c mask_length_bound_def)
  have m: "map_of [(''Authorization'', ''Bearer secret-token-12345'')] ''Authorization''
      = Some ''Bearer secret-token-12345''"
    by simp
  have "\<not> sublist ''Bearer secret-token-12345''
          (mask_value (\<lambda>v. []) default_log_config ''Bearer secret-token-12345'')"
    using t h by blast
  moreover have "map_of (redact_headers (\<lambda>v. v) (\<lambda>v. []) default_log_config
             [(''Authorization'', ''Bearer secret-token-12345'')]) ''Authorization''
     = Some (mask_value (\<lambda>v. []) default_log_config ''Bearer secret-token-12345'')"
    using t a m by blast
  ultimately show ?thesis
    unfolding b by (rule conjI[rotated])
qed

subsection \<open>C7: the in-memory cache\<close>



lemma od_set_map_fst:
  "map fst (od_set k v xs) = (if k \<in> fst ` set xs then map fst xs else map fst xs @ [k])"
proof -
  have "map fst (map (\<lambda>p. if fst p = k then (k, v) else p) xs) = map fst xs"
    by (induction xs) auto
  then show ?thesis by (simp add: od_set_def)
qed



lemma od_set_keys: "fst ` set (od_set k v xs) = insert k (fst ` set xs)"
  using od_set_map_fst[of k v xs] by (metis (no_types, lifting) insert_absorb list.set_map
      set_append list.simps(15) Un_insert_right sup_bot.right_neutral set_empty2 empty_set)








lemma is_expired_touch [simp]:
  "is_expired (e\<lparr>last_accessed := x\<rparr>) now = is_expired e now"
  by (simp add: is_expired_def)

lemma map_of_filter_fresh:
  assumes "map_of (filter P xs) k = Some v"
  shows "P (k, v)" "(k, v) \<in> set xs"
  using map_of_SomeD[OF assms] by auto

















subsection \<open>C9: the cache key\<close>

lemma sort_key_perm_distinct:
  fixes ps :: "('k::linorder \<times> 'v) list"
  assumes "distinct (map fst ps)" "mset ps' = mset ps"
  shows "sort_key fst ps' = sort_key fst ps"
proof -
  have s: "set ps' = set ps" using assms(2) by (metis set_mset_mset)
  have d': "distinct (map fst ps')"
    using assms by (metis distinct_map mset_eq_imp_distinct_iff mset_eq_setD distinct_map)
  have inj: "inj_on fst (set (sort_key fst ps') \<union> set (sort_key fst ps))"
    using assms(1) s by (simp add: distinct_map)
  show ?thesis
    by (rule map_sorted_distinct_set_unique[OF inj]) (use assms(1) d' s in \<open>simp_all add: distinct_map\<close>)
qed

lemma in_keys_iff: "k \<in> fst ` set hs \<longleftrightarrow> map_of hs k \<noteq> None"
  by (simp add: map_of_eq_None_iff)

lemma header_parts_eq:
  "map (\<lambda>p. (fst p, JStr (snd p)))
      (map (\<lambda>k. (k, dict_get hs k [])) (filter (\<lambda>k. k \<in> fst ` set hs) ks))
   = map (\<lambda>k. (k, JStr (the (map_of hs k)))) (filter (\<lambda>k. map_of hs k \<noteq> None) ks)"
  by (induction ks) (auto simp: dict_get_def in_keys_iff)

lemma generate_cache_key_split:
  "generate_cache_key dumps sha256_hex method url params headers include_headers =
     sha256_hex (join ''|''
       ((case params of
           Some ps \<Rightarrow> if ps \<noteq> [] then [str_upper method, url, dumps (json_pairs (sort_key fst ps))]
                      else [str_upper method, url]
         | None \<Rightarrow> [str_upper method, url])
        @ header_part dumps headers include_headers))"
proof (cases headers)
  case None
  then show ?thesis
    by (simp add: generate_cache_key_def header_part_def header_lookup_def Let_def split: option.splits)
next
  case hs: (Some hs)
  show ?thesis
  proof (cases include_headers)
    case None
    then show ?thesis
      using hs by (simp add: generate_cache_key_def header_part_def Let_def split: option.splits)
  next
    case (Some inc)
    show ?thesis
    proof (cases "hs = [] \<or> inc = []")
      case True
      then show ?thesis
        using hs Some
        by (auto simp: generate_cache_key_def header_part_def header_lookup_def Let_def split: option.splits)
    next
      case False
      have lk: "header_lookup (Some hs) = map_of hs"
        by (simp add: header_lookup_def fun_eq_iff)
      have "generate_cache_key dumps sha256_hex method url params (Some hs) (Some inc) =
          sha256_hex (join ''|''
            ((case params of
                Some ps \<Rightarrow> if ps \<noteq> [] then [str_upper method, url] @ [dumps (json_pairs (sort_key fst ps))]
                      else [str_upper method, url]
              | None \<Rightarrow> [str_upper method, url])
             @ (if map (\<lambda>k. (k, dict_get hs k [])) (filter (\<lambda>k. k \<in> fst ` set hs) (sort inc)) \<noteq> []
                then [dumps (json_pairs (map (\<lambda>p. (fst p, JStr (snd p)))
                        (map (\<lambda>k. (k, dict_get hs k [])) (filter (\<lambda>k. k \<in> fst ` set hs) (sort inc)))))]
                else [])))"
        using False by (simp add: generate_cache_key_def Let_def)
      also have "\<dots> = sha256_hex (join ''|''
            ((case params of
                Some ps \<Rightarrow> if ps \<noteq> [] then [str_upper method, url] @ [dumps (json_pairs (sort_key fst ps))]
                      else [str_upper method, url]
              | None \<Rightarrow> [str_upper method, url])
             @ header_part dumps (Some hs) (Some inc)))"
        unfolding header_part_def Let_def lk header_parts_eq
        by (simp add: in_keys_iff)
      finally show ?thesis
        unfolding hs Some by (simp split: option.splits)
    qed
  qed
qed

lemma header_part_cong:
  assumes "\<forall>k\<in>set (case inc of None \<Rightarrow> [] | Some l \<Rightarrow> l). header_lookup h1 k = header_lookup h2 k"
  shows "header_part dumps h1 inc = header_part dumps h2 inc"
proof -
  let ?ks = "sort (case inc of None \<Rightarrow> [] | Some l \<Rightarrow> l)"
  have a: "\<forall>k\<in>set ?ks. header_lookup h1 k = header_lookup h2 k"
    using assms by simp
  then have "filter (\<lambda>k. header_lookup h1 k \<noteq> None) ?ks = filter (\<lambda>k. header_lookup h2 k \<noteq> None) ?ks"
    by (intro filter_cong) auto
  moreover have "map (\<lambda>k. (k, JStr (the (header_lookup h1 k)))) (filter (\<lambda>k. header_lookup h2 k \<noteq> None) ?ks)
      = map (\<lambda>k. (k, JStr (the (header_lookup h2 k)))) (filter (\<lambda>k. header_lookup h2 k \<noteq> None) ?ks)"
    using a by (intro map_cong) auto
  ultimately show ?thesis
    unfolding header_part_def Let_def by (simp only:)
qed

text \<open>
  C9: \<open>generate_cache_key\<close> is a function of (method, url, params, headers,
  include_headers) and of nothing else (the model reads no state, no clock and no
  random draw; \<open>json.dumps\<close> and SHA-256 are functions): equal inputs give equal
  digests. Reordering the keys of the \<open>params\<close> dictionary does not change the result.
  Two header dictionaries that agree on every name listed in \<open>include_headers\<close> give
  the same result, so a header outside \<open>include_headers\<close> cannot affect it. The
  pipeline calls it without \<open>include_headers\<close>, so the pipeline's cache key does not
  depend on the headers at all.
\<close>

theorem generate_cache_key_properties:
  "(m' = m \<and> u' = u \<and> params' = params \<and> headers' = headers \<and> inc' = inc \<longrightarrow>
      generate_cache_key dumps sha256_hex m' u' params' headers' inc'
        = generate_cache_key dumps sha256_hex m u params headers inc)
   \<and> (distinct (map fst ps) \<and> mset ps' = mset ps \<longrightarrow>
        generate_cache_key dumps sha256_hex m u (Some ps') headers inc
          = generate_cache_key dumps sha256_hex m u (Some ps) headers inc)
   \<and> ((\<forall>k\<in>set (case inc of None \<Rightarrow> [] | Some l \<Rightarrow> l). header_lookup h1 k = header_lookup h2 k) \<longrightarrow>
        generate_cache_key dumps sha256_hex m u params h1 inc
          = generate_cache_key dumps sha256_hex m u params h2 inc)
   \<and> generate_cache_key dumps sha256_hex m u params h1 None
        = generate_cache_key dumps sha256_hex m u params h2 None
   \<and> request_cache_key env (req\<lparr>req_headers := hs1\<rparr>)
        = request_cache_key env (req\<lparr>req_headers := hs2\<rparr>)"
proof -
  have reorder: "generate_cache_key dumps sha256_hex m u (Some ps') headers inc
          = generate_cache_key dumps sha256_hex m u (Some ps) headers inc"
    if "distinct (map fst ps)" "mset ps' = mset ps"
  proof -
    have "sort_key fst ps' = sort_key fst ps"
      using that by (rule sort_key_perm_distinct)
    moreover have "ps' = [] \<longleftrightarrow> ps = []"
      using that(2) by (metis mset_zero_iff)
    ultimately show ?thesis
      by (simp add: generate_cache_key_split)
  qed
  have hdr: "generate_cache_key d f a b p h1' inc'
          = generate_cache_key d f a b p h2' inc'"
    if "\<forall>k\<in>set (case inc' of None \<Rightarrow> [] | Some l \<Rightarrow> l). header_lookup h1' k = header_lookup h2' k"
    for inc' d f a b p h1' h2'
    using header_part_cong[OF that, of d] by (simp add: generate_cache_key_split)
  have "request_cache_key env (req\<lparr>req_headers := hs1\<rparr>)
        = request_cache_key env (req\<lparr>req_headers := hs2\<rparr>)"
    unfolding request_cache_key_def using hdr[of None "Some hs1" "Some hs2"] by simp
  then show ?thesis
    using reorder hdr[of inc h1 h2 dumps sha256_hex m u params]
      hdr[of None h1 h2 dumps sha256_hex m u params] by simp
qed

theorem generate_cache_key_properties_witness:
  "generate_cache_key (\<lambda>_. ''j'') (\<lambda>s. s) ''get'' ''/u''
       (Some [(''b'', JInt 2), (''a'', JInt 1)]) (Some [(''Accept'', ''text/html'')]) (Some [''X-Tenant''])
     = generate_cache_key (\<lambda>_. ''j'') (\<lambda>s. s) ''get'' ''/u''
       (Some [(''a'', JInt 1), (''b'', JInt 2)]) (Some [(''Accept'', ''text/html'')]) (Some [''X-Tenant''])
   \<and> generate_cache_key (\<lambda>_. ''j'') (\<lambda>s. s) ''get'' ''/u''
       (Some [(''a'', JInt 1)]) (Some [(''Accept'', ''text/html'')]) (Some [''X-Tenant''])
     = generate_cache_key (\<lambda>_. ''j'') (\<lambda>s. s) ''get'' ''/u''
       (Some [(''a'', JInt 1)]) (Some [(''Accept'', ''*/*'')]) (Some [''X-Tenant''])"
  using generate_cache_key_properties [where ps = "[(''a'', JInt 1), (''b'', JInt 2)]"
      and ps' = "[(''b'', JInt 2), (''a'', JInt 1)]" and dumps = "\<lambda>_. ''j''" and sha256_hex = "\<lambda>s. s"
      and m = "''get''" and u = "''/u''" and headers = "Some [(''Accept'', ''text/html'')]"
      and inc = "Some [''X-Tenant'']" and params = "Some [(''a'', JInt 1)]"
      and ?h1.0 = "Some [(''Accept'', ''text/html'')]" and ?h2.0 = "Some [(''Accept'', ''*/*'')]"]
  by (simp add: header_lookup_def)

subsection \<open>The request pipeline: one iteration of the loop\<close>

lemma sleep_nonneg: "0 \<le> d \<Longrightarrow> sleep d s = Inr (s\<lparr>slept := slept s @ [d]\<rparr>)"
  by (simp add: sleep_def)

lemma sleep_neg: "d < 0 \<Longrightarrow> sleep d s = Inl ValueError"
  by (simp add: sleep_def)

lemma note_retry_simps [simp]:
  "slept (note_retry d b s) = slept s"
  "requests_sent (note_retry d b s) = requests_sent s"
  "circuit_breaker (note_retry d b s) = circuit_breaker s"
  "cache (note_retry d b s) = cache s"
  "ticks (note_retry d b s) = ticks s"
  by (simp_all add: note_retry_def)

lemma note_failed_simps [simp]:
  "slept (note_failed s) = slept s"
  "requests_sent (note_failed s) = requests_sent s"
  "circuit_breaker (note_failed s) = circuit_breaker s"
  "cache (note_failed s) = cache s"
  "ticks (note_failed s) = ticks s"
  by (simp_all add: note_failed_def)

lemma breaker_failure_simps [simp]:
  "slept (breaker_failure env s) = slept s"
  "requests_sent (breaker_failure env s) = requests_sent s"
  "cache (breaker_failure env s) = cache s"
  "stats (breaker_failure env s) = stats s"
  "failed_calls (metrics (circuit_breaker (breaker_failure env s)))
     = failed_calls (metrics (circuit_breaker s)) + 1"
  by (simp_all add: breaker_failure_def record_failure_def transition_to_def Let_def)


lemma except_handlers_simps [simp]:
  "except_handlers env cfg attempt (Continue s') = Continue s'"
  "except_handlers env cfg attempt (Return r s') = Return r s'"
  "except_handlers env cfg attempt (Raise (PyError err) s')
     = Raise (RequestError (Some (PyError err))) (note_failed (breaker_failure env s'))"
  "except_handlers env cfg attempt (Raise (ServerError st) s')
     = Raise (RequestError (Some (ServerError st))) (note_failed (breaker_failure env s'))"
  "except_handlers env cfg attempt (Raise (RateLimitExceeded n ra st) s')
     = Raise (RequestError (Some (RateLimitExceeded n ra st))) (note_failed (breaker_failure env s'))"
  "except_handlers env cfg attempt (Raise OtherException s')
     = Raise (RequestError (Some OtherException)) (note_failed (breaker_failure env s'))"
  "except_handlers env cfg attempt (Raise HttpxTimeoutException s')
     = on_transport_failure env cfg attempt (retry_on_timeout (retry_config cfg)) TimeoutError s'"
  "except_handlers env cfg attempt (Raise HttpxConnectError s')
     = on_transport_failure env cfg attempt (retry_on_connection_error (retry_config cfg))
         ConnectionError s'"
  by (simp_all add: except_handlers_def)


subsection \<open>C2: the delay after a 429 response\<close>





subsection \<open>C3: which responses are retried\<close>











subsection \<open>C4: exhausted 429 responses\<close>

text \<open>
  C4 does not hold on the code, and the code contradicts its own test
  \<^verbatim>\<open>test_stops_after_max_retries\<close> (which expects \<^verbatim>\<open>RateLimitExceeded\<close> with
  \<open>attempts = 3\<close>): the statement \<^verbatim>\<open>raise RateLimitExceeded(...)\<close> stands inside the
  \<^verbatim>\<open>try\<close> block whose last handler is \<^verbatim>\<open>except Exception\<close>. The handler catches
  the exception, records a second breaker failure, counts a failed request, and raises
  \<^verbatim>\<open>RequestError\<close> with the \<^verbatim>\<open>RateLimitExceeded\<close> as its cause. With the test's
  input (\<open>max_attempts = 3\<close>, every response 429 with \<^verbatim>\<open>Retry-After: 1\<close>): three
  transport attempts, two sleeps, the caller sees \<open>RequestError\<close>, and the breaker has
  two failures; \<open>circuit_breaker_trips\<close> stays 0.
\<close>

theorem exhausted_429_raises_request_error:
  "fst (make_request (example_env always_429) (new_client_setup 3)
          (example_request ''GET'') (new_client_state None))
     = Inl (RequestError (Some (RateLimitExceeded 3 (Some 1) 429)))
   \<and> requests_sent (snd (make_request (example_env always_429) (new_client_setup 3)
          (example_request ''GET'') (new_client_state None))) = 3
   \<and> slept (snd (make_request (example_env always_429) (new_client_setup 3)
          (example_request ''GET'') (new_client_state None))) = [1, 1]
   \<and> failed_calls (metrics (circuit_breaker (snd (make_request (example_env always_429)
          (new_client_setup 3) (example_request ''GET'') (new_client_state None))))) = 2
   \<and> failure_count (circuit_breaker (snd (make_request (example_env always_429)
          (new_client_setup 3) (example_request ''GET'') (new_client_state None)))) = 2
   \<and> circuit_breaker_trips (stats (snd (make_request (example_env always_429)
          (new_client_setup 3) (example_request ''GET'') (new_client_state None)))) = 0"
  by code_simp

subsection \<open>C8: the cache in front of the pipeline\<close>











lemma cache_counters_simps [simp]:
  "cache_counters (note_retry d b s) = cache_counters s"
  "cache_counters (note_failed s) = cache_counters s"
  "cache_counters (breaker_failure env s) = cache_counters s"
  "cache_counters (breaker_success s) = cache_counters s"
  "cache_counters (s\<lparr>slept := sl\<rparr>) = cache_counters s"
  "cache_counters (s\<lparr>requests_sent := n\<rparr>) = cache_counters s"
  "cache_counters (s\<lparr>ticks := t\<rparr>) = cache_counters s"
  "cache_counters (s\<lparr>cache := c\<rparr>) = cache_counters s"
  "cache_counters (s\<lparr>circuit_breaker := cb\<rparr>) = cache_counters s"
  "cache_counters (s\<lparr>stats := (stats s)\<lparr>successful_requests := k\<rparr>\<rparr>) = cache_counters s"
  "cache_counters (s\<lparr>stats := (stats s)\<lparr>total_requests := k\<rparr>\<rparr>) = cache_counters s"
  "cache_counters (s\<lparr>stats := (stats s)\<lparr>circuit_breaker_trips := k\<rparr>\<rparr>) = cache_counters s"
  by (simp_all add: cache_counters_def note_retry_def note_failed_def breaker_failure_def
      breaker_success_def)












subsection \<open>C10: the failed_requests counter\<close>

text \<open>
  C10 does not hold on the code, by the defect shown for C4: every exception that the
  \<^verbatim>\<open>try\<close> body raises itself (\<^verbatim>\<open>RateLimitExceeded\<close>, \<^verbatim>\<open>ServerError\<close>) is caught by
  \<^verbatim>\<open>except Exception\<close>, which increments \<open>failed_requests\<close> before it raises
  \<^verbatim>\<open>RequestError\<close>. A POST answered with 500 (a retryable status blocked by
  idempotency) leaves \<open>failed_requests = 1\<close>, and so does a call that exhausts its
  attempts on 429 responses; neither call ends with \<^verbatim>\<open>ServerError\<close> or
  \<^verbatim>\<open>RateLimitExceeded\<close>.
\<close>

theorem status_failure_counts_failed_request:
  "fst (make_request (example_env always_500) (new_client_setup 3)
          (example_request ''POST'') (new_client_state None))
     = Inl (RequestError (Some (ServerError 500)))
   \<and> failed_requests (stats (snd (make_request (example_env always_500) (new_client_setup 3)
          (example_request ''POST'') (new_client_state None)))) = 1
   \<and> failed_requests (stats (new_client_state None)) = 0
   \<and> fst (make_request (example_env always_429) (new_client_setup 1)
          (example_request ''GET'') (new_client_state None))
     = Inl (RequestError (Some (RateLimitExceeded 1 (Some 1) 429)))
   \<and> failed_requests (stats (snd (make_request (example_env always_429) (new_client_setup 1)
          (example_request ''GET'') (new_client_state None)))) = 1"
  by code_simp

end
